theory Spec2Isabelle
  imports Complex_Main
begin

section \<open>Reservoir release scheduling: the data model\<close>

text \<open>
  The program is \<^verbatim>\<open>app.py\<close>. Python floats are modelled as real numbers (exact
  arithmetic); the constant \<^verbatim>\<open>1e-6\<close> is \<open>1 / 1000000\<close>. A pandas data frame
  is the list of its rows in index order, with the index column \<^verbatim>\<open>datetime\<close>
  (an hour count) kept as a field. Everything that raises in Python is a value
  \<open>Inl e\<close> of the result type.
\<close>

datatype error = KeyError | ZeroDivisionError | ValueError

record TimeSeriesRow =
  datetime :: int
  river_inflow_S1 :: real
  upstream_release_R1 :: real
  upstream_release_R2 :: real
  demand_D1 :: real
  demand_D2 :: real
  commitment_S4_min :: real
  commitment_S5_min :: real

record ScheduleRow =
  sched_datetime :: int
  inflow_total :: real
  release_D1 :: real
  release_D2 :: real
  release_S4_river :: real
  release_S5_downstream :: real
  release_total :: real
  storage_end :: real
  spillage :: real
  violation_storage_min :: bool

text \<open>Python's \<^verbatim>\<open>a / b\<close> on floats raises \<^verbatim>\<open>ZeroDivisionError\<close> when \<open>b\<close> is zero.\<close>

definition py_truediv :: "real \<Rightarrow> real \<Rightarrow> error + real" where
  "py_truediv a b = (if b = 0 then Inl ZeroDivisionError else Inr (a / b))"

section \<open>The allocation engine (\<^verbatim>\<open>pseudo_black_box_schedule\<close>)\<close>

text \<open>
  Lines 57--63: every column is multiplied by its scenario multiplier. The
  multipliers are a dict; a missing key raises \<^verbatim>\<open>KeyError\<close>.
\<close>

definition scale_row :: "real \<Rightarrow> real \<Rightarrow> real \<Rightarrow> real \<Rightarrow> TimeSeriesRow \<Rightarrow> TimeSeriesRow" where
  "scale_row river upstream demand commitments r =
     r\<lparr>river_inflow_S1 := river_inflow_S1 r * river,
       upstream_release_R1 := upstream_release_R1 r * upstream,
       upstream_release_R2 := upstream_release_R2 r * upstream,
       demand_D1 := demand_D1 r * demand,
       demand_D2 := demand_D2 r * demand,
       commitment_S4_min := commitment_S4_min r * commitments,
       commitment_S5_min := commitment_S5_min r * commitments\<rparr>"

definition apply_multipliers ::
  "(string \<rightharpoonup> real) \<Rightarrow> TimeSeriesRow list \<Rightarrow> error + TimeSeriesRow list" where
  "apply_multipliers scenario_multipliers inputs =
     (case scenario_multipliers ''river'' of None \<Rightarrow> Inl KeyError | Some river \<Rightarrow>
     (case scenario_multipliers ''upstream'' of None \<Rightarrow> Inl KeyError | Some upstream \<Rightarrow>
     (case scenario_multipliers ''demand'' of None \<Rightarrow> Inl KeyError | Some demand \<Rightarrow>
     (case scenario_multipliers ''commitments'' of None \<Rightarrow> Inl KeyError | Some commitments \<Rightarrow>
        Inr (map (scale_row river upstream demand commitments) inputs)))))"

text \<open>Line 69: the inflow of the hour. Lines 72--73: the water available in it.\<close>

definition inflow :: "TimeSeriesRow \<Rightarrow> real" where
  "inflow r = river_inflow_S1 r + upstream_release_R1 r + upstream_release_R2 r"

definition available :: "real \<Rightarrow> real \<Rightarrow> TimeSeriesRow \<Rightarrow> real" where
  "available storage_min storage r =
     (let usable_storage = max 0 (storage - storage_min) in inflow r + usable_storage)"

text \<open>
  Lines 89--108: commitments first, then the demands. The result is
  \<open>(s4_out, s5_out, d1_out, d2_out)\<close>.
\<close>

definition allocate ::
  "real \<Rightarrow> real \<Rightarrow> real \<Rightarrow> real \<Rightarrow> real \<Rightarrow> error + (real \<times> real \<times> real \<times> real)" where
  "allocate avail s4 s5 d1 d2 =
     (if avail < s4 + s5 then
        (case py_truediv avail (s4 + s5 + 1 / 1000000) of
           Inl e \<Rightarrow> Inl e
         | Inr scale \<Rightarrow> Inr (s4 * scale, s5 * scale, 0, 0))
      else
        (let remaining = avail - (s4 + s5); demand_sum = d1 + d2 in
         if remaining \<ge> demand_sum then Inr (s4, s5, d1, d2)
         else if demand_sum < 1 / 1000000 then Inr (s4, s5, 0, 0)
         else
           (case py_truediv d1 demand_sum of
              Inl e \<Rightarrow> Inl e
            | Inr q1 \<Rightarrow>
               (case py_truediv d2 demand_sum of
                  Inl e \<Rightarrow> Inl e
                | Inr q2 \<Rightarrow> Inr (s4, s5, remaining * q1, remaining * q2)))))"

definition hour_alloc ::
  "real \<Rightarrow> real \<Rightarrow> TimeSeriesRow \<Rightarrow> error + (real \<times> real \<times> real \<times> real)" where
  "hour_alloc storage_min storage r =
     allocate (available storage_min storage r)
       (commitment_S4_min r) (commitment_S5_min r) (demand_D1 r) (demand_D2 r)"

text \<open>Line 110: the sum of the four allocated releases, before the cap.\<close>

fun precap_total :: "real \<times> real \<times> real \<times> real \<Rightarrow> real" where
  "precap_total (s4_out, s5_out, d1_out, d2_out) = s4_out + s5_out + d1_out + d2_out"

text \<open>
  Lines 113--119: the cap on the hour's release. The result is
  \<open>(s4_out, s5_out, d1_out, d2_out, total_release)\<close>.
\<close>

fun enforce_cap ::
  "real \<Rightarrow> real \<times> real \<times> real \<times> real \<Rightarrow> error + (real \<times> real \<times> real \<times> real \<times> real)" where
  "enforce_cap total_release_cap (s4_out, s5_out, d1_out, d2_out) =
     (let total_release = s4_out + s5_out + d1_out + d2_out in
      if total_release > total_release_cap then
        (case py_truediv total_release_cap total_release of
           Inl e \<Rightarrow> Inl e
         | Inr scale \<Rightarrow>
             Inr (s4_out * scale, s5_out * scale, d1_out * scale, d2_out * scale,
                  total_release_cap))
      else Inr (s4_out, s5_out, d1_out, d2_out, total_release))"

text \<open>
  Lines 122--126: the storage after the hour and the spillage, before the
  minimum is looked at. The result is \<open>(storage_next, spillage)\<close>.
\<close>

definition spill_clamp :: "real \<Rightarrow> real \<Rightarrow> real \<Rightarrow> real \<Rightarrow> real \<times> real" where
  "spill_clamp storage_max storage inflow_h total_release =
     (let storage_next = storage + inflow_h - total_release in
      if storage_next > storage_max then (storage_max, storage_next - storage_max)
      else (storage_next, 0))"

text \<open>The body of the loop, lines 69--144: one hour, from the storage at its start.\<close>

definition hour_step ::
  "real \<Rightarrow> real \<Rightarrow> real \<Rightarrow> real \<Rightarrow> TimeSeriesRow \<Rightarrow> error + ScheduleRow" where
  "hour_step storage_min storage_max max_release_per_hour storage r =
     (case hour_alloc storage_min storage r of
        Inl e \<Rightarrow> Inl e
      | Inr outs \<Rightarrow>
         (case enforce_cap max_release_per_hour outs of
            Inl e \<Rightarrow> Inl e
          | Inr (s4_out, s5_out, d1_out, d2_out, total_release) \<Rightarrow>
             (let (storage_next, spill) = spill_clamp storage_max storage (inflow r) total_release;
                  violated_min = storage_next < storage_min
              in Inr \<lparr>sched_datetime = datetime r,
                      inflow_total = inflow r,
                      release_D1 = d1_out,
                      release_D2 = d2_out,
                      release_S4_river = s4_out,
                      release_S5_downstream = s5_out,
                      release_total = total_release,
                      storage_end = (if violated_min then storage_min else storage_next),
                      spillage = spill,
                      violation_storage_min = violated_min\<rparr>)))"

text \<open>
  The loop of lines 68--146: the rows in order, the storage at the end of an
  hour being the storage at the start of the next. An error in any hour is the
  error of the whole run.
\<close>

fun run_hours ::
  "real \<Rightarrow> real \<Rightarrow> real \<Rightarrow> real \<Rightarrow> TimeSeriesRow list \<Rightarrow> error + ScheduleRow list" where
  "run_hours storage_min storage_max max_release_per_hour storage [] = Inr []"
| "run_hours storage_min storage_max max_release_per_hour storage (r # rs) =
     (case hour_step storage_min storage_max max_release_per_hour storage r of
        Inl e \<Rightarrow> Inl e
      | Inr row \<Rightarrow>
         (case run_hours storage_min storage_max max_release_per_hour (storage_end row) rs of
            Inl e \<Rightarrow> Inl e
          | Inr rows \<Rightarrow> Inr (row # rows)))"

text \<open>
  The whole function. Line 148 builds the frame from the collected rows and
  makes \<^verbatim>\<open>datetime\<close> its index; with no row at all the frame has no such
  column and pandas raises \<^verbatim>\<open>KeyError\<close>.
\<close>

definition pseudo_black_box_schedule ::
  "TimeSeriesRow list \<Rightarrow> real \<Rightarrow> real \<Rightarrow> real \<Rightarrow> real \<Rightarrow> (string \<rightharpoonup> real)
     \<Rightarrow> error + ScheduleRow list" where
  "pseudo_black_box_schedule inputs storage_start storage_min storage_max
       max_release_per_hour scenario_multipliers =
     (case apply_multipliers scenario_multipliers inputs of
        Inl e \<Rightarrow> Inl e
      | Inr df \<Rightarrow>
         (case run_hours storage_min storage_max max_release_per_hour storage_start df of
            Inl e \<Rightarrow> Inl e
          | Inr rows \<Rightarrow> (if rows = [] then Inl KeyError else Inr rows)))"

text \<open>
  The storage at the start of hour \<open>i\<close> of a schedule: \<^verbatim>\<open>storage_start\<close> for the
  first hour (line 65), the previous row's \<^verbatim>\<open>storage_end\<close> afterwards (line 146).
\<close>

definition storage_before :: "real \<Rightarrow> ScheduleRow list \<Rightarrow> nat \<Rightarrow> real" where
  "storage_before storage_start sched i =
     (if i = 0 then storage_start else storage_end (sched ! (i - 1)))"

section \<open>The summary (\<^verbatim>\<open>kpis\<close>)\<close>

text \<open>
  The column sums of pandas are numpy floats, and numpy's division does not
  raise: a zero divisor gives an infinity or not-a-number. The quotient is
  therefore a value of \<open>np_float\<close>; it is the real quotient whenever the divisor
  is not zero.
\<close>

datatype np_float = Finite real | PosInf | NegInf | NaN

definition np_truediv :: "real \<Rightarrow> real \<Rightarrow> np_float" where
  "np_truediv a b =
     (if b \<noteq> 0 then Finite (a / b)
      else if 0 < a then PosInf else if a < 0 then NegInf else NaN)"

record KPISummary =
  Demand_met_pct :: np_float
  Commitments_met_pct :: np_float
  Total_spillage :: real
  Storage_min_violations :: int

text \<open>Lines 151--170. The sum of a column of booleans counts the \<^verbatim>\<open>True\<close> entries.\<close>

definition kpis :: "TimeSeriesRow list \<Rightarrow> ScheduleRow list \<Rightarrow> KPISummary" where
  "kpis inputs schedule =
     (let d1 = sum_list (map demand_D1 inputs);
          d2 = sum_list (map demand_D2 inputs);
          dem = d1 + d2;
          dem_met = sum_list (map release_D1 schedule) + sum_list (map release_D2 schedule);
          dem_pct = np_truediv (100 * dem_met) (dem + 1 / 1000000);
          com = sum_list (map commitment_S4_min inputs) + sum_list (map commitment_S5_min inputs);
          com_met = sum_list (map release_S4_river schedule)
                      + sum_list (map release_S5_downstream schedule);
          com_pct = np_truediv (100 * com_met) (com + 1 / 1000000);
          spill = sum_list (map spillage schedule);
          violations = sum_list (map (\<lambda>r. if violation_storage_min r then 1 else 0) schedule)
      in \<lparr>Demand_met_pct = dem_pct, Commitments_met_pct = com_pct,
          Total_spillage = spill, Storage_min_violations = violations\<rparr>)"

section \<open>The scenario generator (\<^verbatim>\<open>make_timeseries\<close>, \<^verbatim>\<open>generate_inputs\<close>)\<close>

text \<open>
  \<^verbatim>\<open>np.linspace(start, stop, num)\<close>: \<open>num\<close> evenly spaced points, the single
  point \<open>start\<close> when \<open>num\<close> is one.
\<close>

definition linspace :: "real \<Rightarrow> real \<Rightarrow> nat \<Rightarrow> real list" where
  "linspace start stop num =
     (if num = 1 then [start]
      else map (\<lambda>i. start + real i * ((stop - start) / real (num - 1))) [0..<num])"

text \<open>
  Lines 11--17. The random generator of numpy is a parameter: \<open>normal seed n i\<close>
  is sample \<open>i\<close> of the \<open>n\<close> samples \<^verbatim>\<open>rng.normal(0, 6, size=n)\<close> draws from the
  generator seeded with \<open>seed\<close>. \<^verbatim>\<open>np.random.default_rng\<close> accepts no negative
  seed and \<^verbatim>\<open>np.linspace\<close> no negative count: both raise \<^verbatim>\<open>ValueError\<close>.
  Timestamps are counted in hours, so the hourly index from \<open>start_ts\<close> is
  \<open>start_ts, start_ts + 1, \<dots>\<close>; \<^verbatim>\<open>np.clip(x, 0, None)\<close> is \<open>max x 0\<close>.
\<close>

definition make_timeseries ::
  "(nat \<Rightarrow> nat \<Rightarrow> nat \<Rightarrow> real) \<Rightarrow> int \<Rightarrow> int \<Rightarrow> int \<Rightarrow> error + (int list \<times> real list)" where
  "make_timeseries normal start_ts hours seed =
     (if seed < 0 then Inl ValueError
      else if hours < 0 then Inl ValueError
      else
        (let n = nat hours;
             idx = map (\<lambda>i. start_ts + int i) [0..<n];
             base = map (\<lambda>x. 120 + 30 * sin x) (linspace 0 (3 * pi) n);
             noise = map (normal (nat seed) n) [0..<n]
         in Inr (idx, map (\<lambda>x. max x 0) (map2 (+) base noise))))"

text \<open>
  Lines 19--42. The clock is a parameter too: \<open>start\<close> is the current time
  floored to the hour (line 20).
\<close>

definition generate_inputs ::
  "(nat \<Rightarrow> nat \<Rightarrow> nat \<Rightarrow> real) \<Rightarrow> int \<Rightarrow> int \<Rightarrow> int \<Rightarrow> error + TimeSeriesRow list" where
  "generate_inputs normal start horizon_hours seed =
     (case make_timeseries normal start horizon_hours seed of Inl e \<Rightarrow> Inl e | Inr (idx, s1) \<Rightarrow>
     (case make_timeseries normal start horizon_hours (seed + 1) of Inl e \<Rightarrow> Inl e | Inr (_, r1) \<Rightarrow>
     (case make_timeseries normal start horizon_hours (seed + 2) of Inl e \<Rightarrow> Inl e | Inr (_, r2) \<Rightarrow>
     (case make_timeseries normal start horizon_hours (seed + 3) of Inl e \<Rightarrow> Inl e | Inr (_, d1) \<Rightarrow>
     (case make_timeseries normal start horizon_hours (seed + 4) of Inl e \<Rightarrow> Inl e | Inr (_, d2) \<Rightarrow>
        (let s4_min = replicate (nat horizon_hours) 40;
             s5_min = replicate (nat horizon_hours) 35
         in Inr (map (\<lambda>i. \<lparr>datetime = idx ! i,
                            river_inflow_S1 = s1 ! i,
                            upstream_release_R1 = r1 ! i,
                            upstream_release_R2 = r2 ! i,
                            demand_D1 = d1 ! i * (55 / 100),
                            demand_D2 = d2 ! i * (45 / 100),
                            commitment_S4_min = s4_min ! i,
                            commitment_S5_min = s5_min ! i\<rparr>)
                   [0..<length idx])))))))"

section \<open>Properties of the inputs\<close>

text \<open>
  What the data model asks of an input row: every flow of the hour is
  non-negative.
\<close>

definition nonneg_row :: "TimeSeriesRow \<Rightarrow> bool" where
  "nonneg_row r \<longleftrightarrow>
     0 \<le> river_inflow_S1 r \<and> 0 \<le> upstream_release_R1 r \<and> 0 \<le> upstream_release_R2 r \<and>
     0 \<le> demand_D1 r \<and> 0 \<le> demand_D2 r \<and>
     0 \<le> commitment_S4_min r \<and> 0 \<le> commitment_S5_min r"

text \<open>The divisor of line 91 is not zero for the commitments of this row.\<close>

definition shortage_guarded :: "TimeSeriesRow \<Rightarrow> bool" where
  "shortage_guarded r \<longleftrightarrow> commitment_S4_min r + commitment_S5_min r + 1 / 1000000 \<noteq> 0"

section \<open>Concrete runs\<close>

text \<open>
  The multipliers of a run with every slider at zero, an hour with the
  generator's commitments (40 and 35) and all inflow in the river, and a noise
  source that is constantly zero.
\<close>

definition unit_multipliers :: "string \<rightharpoonup> real" where
  "unit_multipliers =
     [''river'' \<mapsto> 1, ''upstream'' \<mapsto> 1, ''demand'' \<mapsto> 1, ''commitments'' \<mapsto> 1]"

definition sample_hour :: "int \<Rightarrow> real \<Rightarrow> real \<Rightarrow> real \<Rightarrow> TimeSeriesRow" where
  "sample_hour t s1 d1 d2 =
     \<lparr>datetime = t, river_inflow_S1 = s1, upstream_release_R1 = 0, upstream_release_R2 = 0,
      demand_D1 = d1, demand_D2 = d2, commitment_S4_min = 40, commitment_S5_min = 35\<rparr>"

definition no_noise :: "nat \<Rightarrow> nat \<Rightarrow> nat \<Rightarrow> real" where
  "no_noise seed n i = 0"

text \<open>
  Three hours of falling inflow, run from storage 100 with minimum 100, maximum
  1000 and cap 1000: demands met, then rationed, then a shortage of the
  commitments themselves.
\<close>

definition dry_spell :: "TimeSeriesRow list" where
  "dry_spell = [sample_hour 0 200 55 45, sample_hour 1 100 55 45, sample_hour 2 30 55 45]"

definition dry_spell_schedule :: "ScheduleRow list" where
  "dry_spell_schedule =
     [\<lparr>sched_datetime = 0, inflow_total = 200, release_D1 = 55, release_D2 = 45,
       release_S4_river = 40, release_S5_downstream = 35, release_total = 175,
       storage_end = 125, spillage = 0, violation_storage_min = False\<rparr>,
      \<lparr>sched_datetime = 1, inflow_total = 100, release_D1 = 55 / 2, release_D2 = 45 / 2,
       release_S4_river = 40, release_S5_downstream = 35, release_total = 125,
       storage_end = 100, spillage = 0, violation_storage_min = False\<rparr>,
      \<lparr>sched_datetime = 2, inflow_total = 30, release_D1 = 0, release_D2 = 0,
       release_S4_river = 1200000000 / 75000001,
       release_S5_downstream = 1050000000 / 75000001,
       release_total = 2250000000 / 75000001,
       storage_end = 7500000130 / 75000001, spillage = 0, violation_storage_min = False\<rparr>]"

text \<open>
  Two hours run from storage 20 with minimum 100, maximum 120 and cap 150: the
  cap binds and the minimum is violated in the first hour, the second spills.
\<close>

definition flood :: "TimeSeriesRow list" where
  "flood = [sample_hour 0 200 55 45, sample_hour 1 300 0 0]"

definition flood_schedule :: "ScheduleRow list" where
  "flood_schedule =
     [\<lparr>sched_datetime = 0, inflow_total = 200, release_D1 = 330 / 7, release_D2 = 270 / 7,
       release_S4_river = 240 / 7, release_S5_downstream = 30, release_total = 150,
       storage_end = 100, spillage = 0, violation_storage_min = True\<rparr>,
      \<lparr>sched_datetime = 1, inflow_total = 300, release_D1 = 0, release_D2 = 0,
       release_S4_river = 40, release_S5_downstream = 35, release_total = 75,
       storage_end = 120, spillage = 205, violation_storage_min = False\<rparr>]"

text \<open>One hour with plenty of water, run from storage 500 with cap 35.\<close>

definition capped :: "TimeSeriesRow list" where
  "capped = [sample_hour 0 200 55 45]"

definition capped_schedule :: "ScheduleRow list" where
  "capped_schedule =
     [\<lparr>sched_datetime = 0, inflow_total = 200, release_D1 = 11, release_D2 = 9,
       release_S4_river = 8, release_S5_downstream = 7, release_total = 35,
       storage_end = 665, spillage = 0, violation_storage_min = False\<rparr>]"

text \<open>
  One hour whose inflow exceeds the commitments by a ten-millionth, with two
  demands of two ten-millionths each, run from storage 100 with minimum 100.
\<close>

definition trickle :: "TimeSeriesRow list" where
  "trickle = [sample_hour 0 (75 + 1 / 10000000) (2 / 10000000) (2 / 10000000)]"

definition trickle_schedule :: "ScheduleRow list" where
  "trickle_schedule =
     [\<lparr>sched_datetime = 0, inflow_total = 750000001 / 10000000, release_D1 = 0, release_D2 = 0,
       release_S4_river = 40, release_S5_downstream = 35, release_total = 75,
       storage_end = 1000000001 / 10000000, spillage = 0, violation_storage_min = False\<rparr>]"

text \<open>One hour without any inflow or demand.\<close>

definition drought :: "TimeSeriesRow list" where
  "drought = [sample_hour 0 0 0 0]"

text \<open>
  What the generator returns for three hours from hour 0 when the noise is
  zero: the sine sweep alone, 120, 90 and 120, in every generated column.
\<close>

definition calm_inputs :: "TimeSeriesRow list" where
  "calm_inputs =
     [\<lparr>datetime = 0, river_inflow_S1 = 120, upstream_release_R1 = 120,
       upstream_release_R2 = 120, demand_D1 = 66, demand_D2 = 54,
       commitment_S4_min = 40, commitment_S5_min = 35\<rparr>,
      \<lparr>datetime = 1, river_inflow_S1 = 90, upstream_release_R1 = 90,
       upstream_release_R2 = 90, demand_D1 = 99 / 2, demand_D2 = 81 / 2,
       commitment_S4_min = 40, commitment_S5_min = 35\<rparr>,
      \<lparr>datetime = 2, river_inflow_S1 = 120, upstream_release_R1 = 120,
       upstream_release_R2 = 120, demand_D1 = 66, demand_D2 = 54,
       commitment_S4_min = 40, commitment_S5_min = 35\<rparr>]"

section \<open>The loop, hour by hour\<close>

lemma run_hours_length:
  "run_hours smin smax cap st df = Inr sched \<Longrightarrow> length sched = length df"
  by (induction df arbitrary: st sched) (auto split: sum.splits)

lemma run_hours_nth:
  "run_hours smin smax cap st df = Inr sched \<Longrightarrow> i < length df \<Longrightarrow>
   hour_step smin smax cap (storage_before st sched i) (df ! i) = Inr (sched ! i)"
proof (induction df arbitrary: st sched i)
  case Nil
  then show ?case by simp
next
  case (Cons r rs)
  from Cons.prems(1) obtain row rows where
    step: "hour_step smin smax cap st r = Inr row" and
    rest: "run_hours smin smax cap (storage_end row) rs = Inr rows" and
    sched: "sched = row # rows"
    by (auto split: sum.splits)
  show ?case
  proof (cases i)
    case 0
    then show ?thesis using step sched by (simp add: storage_before_def)
  next
    case (Suc j)
    with Cons.prems(2) have j: "j < length rs" by simp
    have "hour_step smin smax cap (storage_before (storage_end row) rows j) (rs ! j)
            = Inr (rows ! j)"
      using Cons.IH [OF rest j] .
    moreover have "storage_before st sched i = storage_before (storage_end row) rows j"
      using Suc sched by (cases j) (simp_all add: storage_before_def)
    ultimately show ?thesis using Suc sched by simp
  qed
qed

lemma schedule_hours:
  assumes "pseudo_black_box_schedule inputs ss smin smax cap m = Inr sched"
      and "apply_multipliers m inputs = Inr df"
  shows "length sched = length df"
    and "i < length sched \<Longrightarrow>
         hour_step smin smax cap (storage_before ss sched i) (df ! i) = Inr (sched ! i)"
proof -
  from assms have run: "run_hours smin smax cap ss df = Inr sched"
    by (auto simp: pseudo_black_box_schedule_def split: sum.splits if_splits)
  show len: "length sched = length df" using run by (rule run_hours_length)
  show "hour_step smin smax cap (storage_before ss sched i) (df ! i) = Inr (sched ! i)"
    if "i < length sched"
    using run_hours_nth [OF run] that len by simp
qed

lemma schedule_multipliers:
  "pseudo_black_box_schedule inputs ss smin smax cap m = Inr sched \<Longrightarrow>
   \<exists>df. apply_multipliers m inputs = Inr df"
  by (auto simp: pseudo_black_box_schedule_def split: sum.splits)

section \<open>One hour\<close>

lemma hour_step_Inr:
  assumes "hour_step smin smax cap st r = Inr row"
  obtains outs s4o s5o d1o d2o tot where
    "hour_alloc smin st r = Inr outs"
    "enforce_cap cap outs = Inr (s4o, s5o, d1o, d2o, tot)"
    "sched_datetime row = datetime r"
    "inflow_total row = inflow r"
    "release_S4_river row = s4o" "release_S5_downstream row = s5o"
    "release_D1 row = d1o" "release_D2 row = d2o" "release_total row = tot"
    "spillage row = snd (spill_clamp smax st (inflow r) tot)"
    "violation_storage_min row = (fst (spill_clamp smax st (inflow r) tot) < smin)"
    "storage_end row = (if fst (spill_clamp smax st (inflow r) tot) < smin then smin
                        else fst (spill_clamp smax st (inflow r) tot))"
  using assms
  by (auto simp: hour_step_def Let_def split: sum.splits prod.splits)

lemma spill_clamp_balance:
  "fst (spill_clamp smax st i t) = st + i - t - snd (spill_clamp smax st i t)"
  by (simp add: spill_clamp_def Let_def)

lemma spill_clamp_le: "fst (spill_clamp smax st i t) \<le> smax"
  by (simp add: spill_clamp_def Let_def)

lemma spill_clamp_ge:
  "smin \<le> smax \<Longrightarrow> smin \<le> st + i - t \<Longrightarrow> smin \<le> fst (spill_clamp smax st i t)"
  by (simp add: spill_clamp_def Let_def)

lemma hour_step_bounds:
  assumes "hour_step smin smax cap st r = Inr row"
  shows "smin \<le> storage_end row" and "smin \<le> smax \<Longrightarrow> storage_end row \<le> smax"
proof -
  from assms obtain tot where
    e: "storage_end row = (if fst (spill_clamp smax st (inflow r) tot) < smin then smin
                        else fst (spill_clamp smax st (inflow r) tot))"
    by (rule hour_step_Inr)
  show "smin \<le> storage_end row" using e by simp
  show "storage_end row \<le> smax" if "smin \<le> smax"
    using e that spill_clamp_le [of smax st "inflow r" tot] by simp
qed

lemma storage_before_ge:
  assumes "pseudo_black_box_schedule inputs ss smin smax cap m = Inr sched"
      and "smin \<le> ss" and "i < length sched"
  shows "smin \<le> storage_before ss sched i"
proof (cases i)
  case 0
  then show ?thesis using assms(2) by (simp add: storage_before_def)
next
  case (Suc j)
  obtain df where df: "apply_multipliers m inputs = Inr df"
    using schedule_multipliers [OF assms(1)] by blast
  have "j < length sched" using Suc assms(3) by simp
  from schedule_hours(2) [OF assms(1) df this]
  have "smin \<le> storage_end (sched ! j)" by (rule hour_step_bounds(1))
  then show ?thesis using Suc by (simp add: storage_before_def)
qed

section \<open>The cap\<close>

lemma enforce_cap_le:
  "enforce_cap cap outs = Inr (a, b, c, d, tot) \<Longrightarrow> tot \<le> cap"
  by (cases outs) (auto simp: Let_def split: if_splits sum.splits)

lemma enforce_cap_total_le:
  "enforce_cap cap outs = Inr (a, b, c, d, tot) \<Longrightarrow> tot \<le> precap_total outs"
  by (cases outs) (auto simp: Let_def split: if_splits sum.splits)

lemma enforce_cap_unbound:
  "precap_total outs \<le> cap \<Longrightarrow> enforce_cap cap outs = Inr (a, b, c, d, tot) \<Longrightarrow>
   outs = (a, b, c, d) \<and> tot = precap_total outs"
  by (cases outs) (auto simp: Let_def split: if_splits sum.splits)

lemma enforce_cap_bound:
  "cap < precap_total outs \<Longrightarrow> enforce_cap cap (s4, s5, d1, d2) = Inr (a, b, c, d, tot) \<Longrightarrow>
   outs = (s4, s5, d1, d2) \<Longrightarrow>
   a = s4 * (cap / precap_total outs) \<and> b = s5 * (cap / precap_total outs) \<and>
   c = d1 * (cap / precap_total outs) \<and> d = d2 * (cap / precap_total outs) \<and> tot = cap
   \<and> precap_total outs \<noteq> 0"
  by (auto simp: Let_def py_truediv_def split: if_splits sum.splits)

lemma enforce_cap_zero_demands:
  "enforce_cap cap (a, b, 0, 0) = Inr (s4o, s5o, d1o, d2o, tot) \<Longrightarrow> d1o = 0 \<and> d2o = 0"
  by (auto simp: Let_def split: if_splits sum.splits)

lemma enforce_cap_cross:
  "enforce_cap cap (a, b, c, d) = Inr (s4o, s5o, d1o, d2o, tot) \<Longrightarrow>
   c * y = d * x \<Longrightarrow> d1o * y = d2o * x"
  by (auto simp: Let_def split: if_splits sum.splits)

lemma enforce_cap_ok:
  "0 \<le> cap \<Longrightarrow> \<exists>res. enforce_cap cap outs = Inr res"
  by (cases outs) (auto simp: Let_def py_truediv_def)

section \<open>The allocation\<close>

lemma allocate_full:
  "s4 + s5 \<le> avail \<Longrightarrow> \<exists>d1o d2o. allocate avail s4 s5 d1 d2 = Inr (s4, s5, d1o, d2o)"
  by (simp add: allocate_def Let_def py_truediv_def)

lemma allocate_shortage:
  "avail < s4 + s5 \<Longrightarrow> allocate avail s4 s5 d1 d2 = Inr outs \<Longrightarrow>
   outs = (s4 * (avail / (s4 + s5 + 1 / 1000000)), s5 * (avail / (s4 + s5 + 1 / 1000000)), 0, 0)"
  by (auto simp: allocate_def py_truediv_def split: if_splits)

lemma allocate_ration:
  "s4 + s5 \<le> avail \<Longrightarrow> avail - (s4 + s5) < d1 + d2 \<Longrightarrow>
   allocate avail s4 s5 d1 d2 = Inr (a, b, c, d) \<Longrightarrow> c * d2 = d * d1"
  by (auto simp: allocate_def Let_def py_truediv_def split: if_splits)

lemma shortage_scale_le:
  fixes avail c :: real
  assumes "0 \<le> avail" "0 \<le> c"
  shows "c * (avail / (c + 1 / 1000000)) \<le> avail"
proof -
  have "c / (c + 1 / 1000000) \<le> 1" using assms(2) by (simp add: field_simps)
  then have "avail * (c / (c + 1 / 1000000)) \<le> avail * 1"
    using assms(1) by (rule mult_left_mono)
  then show ?thesis by (simp add: field_simps)
qed

lemma fair_share_sum:
  fixes r d1 d2 :: real
  assumes "d1 + d2 \<noteq> 0"
  shows "r * (d1 / (d1 + d2)) + r * (d2 / (d1 + d2)) = r"
proof -
  have "r * (d1 / (d1 + d2)) + r * (d2 / (d1 + d2)) = r * ((d1 + d2) / (d1 + d2))"
    by (simp only: distrib_left add_divide_distrib)
  also have "\<dots> = r" using assms by simp
  finally show ?thesis .
qed

lemma allocate_ration_share:
  "s4 + s5 \<le> avail \<Longrightarrow> avail - (s4 + s5) < d1 + d2 \<Longrightarrow> 1 / 1000000 \<le> d1 + d2 \<Longrightarrow>
   allocate avail s4 s5 d1 d2
     = Inr (s4, s5, (avail - (s4 + s5)) * (d1 / (d1 + d2)),
            (avail - (s4 + s5)) * (d2 / (d1 + d2)))"
  by (auto simp: allocate_def Let_def py_truediv_def)

lemma allocate_ration_tiny:
  "s4 + s5 \<le> avail \<Longrightarrow> avail - (s4 + s5) < d1 + d2 \<Longrightarrow> d1 + d2 < 1 / 1000000 \<Longrightarrow>
   allocate avail s4 s5 d1 d2 = Inr (s4, s5, 0, 0)"
  by (auto simp: allocate_def Let_def)

lemma ration_total:
  fixes avail d1 d2 :: real
  assumes "d1 + d2 \<noteq> 0"
  shows "precap_total (s4, s5, (avail - (s4 + s5)) * (d1 / (d1 + d2)),
                       (avail - (s4 + s5)) * (d2 / (d1 + d2))) = avail"
  using fair_share_sum [OF assms, of "avail - (s4 + s5)"] by simp

lemma allocate_total_le:
  assumes "0 \<le> avail" "0 \<le> s4" "0 \<le> s5" "0 \<le> d1" "0 \<le> d2"
      and "allocate avail s4 s5 d1 d2 = Inr outs"
  shows "precap_total outs \<le> avail"
proof (cases "avail < s4 + s5")
  case True
  have "(s4 + s5) * (avail / (s4 + s5 + 1 / 1000000)) \<le> avail"
    using assms(1-3) by (intro shortage_scale_le) simp_all
  moreover have "precap_total outs = (s4 + s5) * (avail / (s4 + s5 + 1 / 1000000))"
    using allocate_shortage [OF True assms(6)] by (simp add: distrib_right add_divide_distrib)
  ultimately show ?thesis by simp
next
  case False
  show ?thesis
  proof (cases "avail - (s4 + s5) \<ge> d1 + d2")
    case True
    then show ?thesis using False assms(6) by (auto simp: allocate_def Let_def)
  next
    case ration: False
    show ?thesis
    proof (cases "d1 + d2 < 1 / 1000000")
      case True
      then show ?thesis using False ration assms(6) by (auto simp: allocate_def Let_def)
    next
      case big: False
      then have nz: "d1 + d2 \<noteq> 0" by auto
      have "(avail - (s4 + s5)) * (d1 / (d1 + d2)) + (avail - (s4 + s5)) * (d2 / (d1 + d2))
              = avail - (s4 + s5)"
        using nz by (rule fair_share_sum)
      then show ?thesis
        using False ration big assms(6)
        by (auto simp: allocate_def Let_def py_truediv_def)
    qed
  qed
qed

lemma allocate_ok:
  "s4 + s5 + 1 / 1000000 \<noteq> 0 \<Longrightarrow> \<exists>outs. allocate avail s4 s5 d1 d2 = Inr outs"
  by (auto simp: allocate_def Let_def py_truediv_def)

lemma hour_step_ok:
  assumes "0 \<le> cap" and "shortage_guarded r"
  shows "\<exists>row. hour_step smin smax cap st r = Inr row"
proof -
  from assms(2) have "commitment_S4_min r + commitment_S5_min r + 1 / 1000000 \<noteq> 0"
    by (simp add: shortage_guarded_def)
  from allocate_ok [OF this, of "available smin st r" "demand_D1 r" "demand_D2 r"]
  obtain outs where "hour_alloc smin st r = Inr outs"
    unfolding hour_alloc_def by blast
  moreover from enforce_cap_ok [OF assms(1)] obtain res where "enforce_cap cap outs = Inr res"
    by blast
  ultimately show ?thesis
    by (cases res) (simp add: hour_step_def Let_def split: prod.splits)
qed

lemma run_hours_ok:
  assumes "0 \<le> cap" and "list_all shortage_guarded df"
  shows "\<exists>sched. run_hours smin smax cap st df = Inr sched"
  using assms(2)
proof (induction df arbitrary: st)
  case Nil
  then show ?case by simp
next
  case (Cons r rs)
  from Cons.prems have "shortage_guarded r" by simp
  from hour_step_ok [OF assms(1) this]
  obtain row where row: "hour_step smin smax cap st r = Inr row" by blast
  from Cons.prems have "list_all shortage_guarded rs" by simp
  from Cons.IH [OF this]
  obtain rows where "run_hours smin smax cap (storage_end row) rs = Inr rows" by blast
  with row show ?case by simp
qed

section \<open>The generator\<close>

lemma length_linspace: "length (linspace a b n) = n"
  by (simp add: linspace_def)

lemma make_timeseries_ok:
  assumes "0 \<le> seed" and "0 \<le> hours"
  shows "\<exists>idx vals. make_timeseries normal start hours seed = Inr (idx, vals)
           \<and> length idx = nat hours \<and> length vals = nat hours
           \<and> (\<forall>i < nat hours. idx ! i = start + int i)
           \<and> (\<forall>i < nat hours. 0 \<le> vals ! i)"
  using assms by (simp add: make_timeseries_def Let_def length_linspace)

section \<open>The concrete runs, evaluated\<close>

lemmas engine_defs =
  pseudo_black_box_schedule_def hour_step_def hour_alloc_def allocate_def available_def
  inflow_def py_truediv_def spill_clamp_def sample_hour_def Let_def

lemma unit_multipliers_apply: "apply_multipliers unit_multipliers df = Inr df"
  by (simp add: apply_multipliers_def unit_multipliers_def scale_row_def map_idI)

lemma dry_spell_run:
  "pseudo_black_box_schedule dry_spell 100 100 1000 1000 unit_multipliers
     = Inr dry_spell_schedule"
  by (simp add: engine_defs unit_multipliers_apply dry_spell_def dry_spell_schedule_def)

lemma flood_run:
  "pseudo_black_box_schedule flood 20 100 120 150 unit_multipliers = Inr flood_schedule"
  by (simp add: engine_defs unit_multipliers_apply flood_def flood_schedule_def)

lemma capped_run:
  "pseudo_black_box_schedule capped 500 100 1000 35 unit_multipliers = Inr capped_schedule"
  by (simp add: engine_defs unit_multipliers_apply capped_def capped_schedule_def)

lemma trickle_run:
  "pseudo_black_box_schedule trickle 100 100 1000 1000 unit_multipliers = Inr trickle_schedule"
  by (simp add: engine_defs unit_multipliers_apply trickle_def trickle_schedule_def)

lemma sin_three_pi_half: "sin (3 * pi / 2) = - 1"
  using sin_3over2_pi by simp

lemma sin_three_pi: "sin (3 * pi) = 0"
  using sin_npi [of 3] by simp

lemma upt_three: "[0..<3] = [0, 1, 2]"
  by (simp add: upt_rec)

lemma calm_timeseries:
  "0 \<le> seed \<Longrightarrow> make_timeseries no_noise 0 3 seed = Inr ([0, 1, 2], [120, 90, 120])"
  by (simp add: make_timeseries_def linspace_def no_noise_def upt_three
        sin_three_pi_half sin_three_pi)

lemma calm_run: "generate_inputs no_noise 0 3 7 = Inr calm_inputs"
  by (simp add: generate_inputs_def calm_timeseries upt_three calm_inputs_def)

section \<open>Claims about the storage\<close>

text \<open>
  Claim C2 (conservation). In every hour of a schedule the storage after
  spilling and before the minimum is looked at (the pre-clamp value of line
  129) is the storage at the start of the hour plus \<open>inflow_total\<close> minus
  \<open>release_total\<close> minus \<open>spillage\<close>. When the hour is not flagged,
  \<open>storage_end\<close> is that value; when it is flagged, \<open>storage_end\<close> is
  \<open>storage_min\<close> and that value lies below it.
\<close>

theorem storage_conservation:
  assumes "pseudo_black_box_schedule inputs ss smin smax cap m = Inr sched"
      and "i < length sched"
  shows "fst (spill_clamp smax (storage_before ss sched i)
                 (inflow_total (sched ! i)) (release_total (sched ! i)))
           = storage_before ss sched i + inflow_total (sched ! i)
               - release_total (sched ! i) - spillage (sched ! i)
         \<and> (\<not> violation_storage_min (sched ! i) \<longrightarrow>
              storage_end (sched ! i)
                = storage_before ss sched i + inflow_total (sched ! i)
                    - release_total (sched ! i) - spillage (sched ! i))
         \<and> (violation_storage_min (sched ! i) \<longrightarrow>
              storage_end (sched ! i) = smin \<and>
              storage_before ss sched i + inflow_total (sched ! i)
                - release_total (sched ! i) - spillage (sched ! i) < smin)"
proof -
  obtain df where df: "apply_multipliers m inputs = Inr df"
    using schedule_multipliers [OF assms(1)] by blast
  let ?st = "storage_before ss sched i"
  from schedule_hours(2) [OF assms(1) df assms(2)]
  have step: "hour_step smin smax cap ?st (df ! i) = Inr (sched ! i)" .
  then obtain tot where
    i: "inflow_total (sched ! i) = inflow (df ! i)" and
    t: "release_total (sched ! i) = tot" and
    sp: "spillage (sched ! i) = snd (spill_clamp smax ?st (inflow (df ! i)) tot)" and
    v: "violation_storage_min (sched ! i)
          = (fst (spill_clamp smax ?st (inflow (df ! i)) tot) < smin)" and
    e: "storage_end (sched ! i)
          = (if fst (spill_clamp smax ?st (inflow (df ! i)) tot) < smin then smin
             else fst (spill_clamp smax ?st (inflow (df ! i)) tot))"
    by (rule hour_step_Inr)
  have bal: "fst (spill_clamp smax ?st (inflow (df ! i)) tot)
               = ?st + inflow (df ! i) - tot - snd (spill_clamp smax ?st (inflow (df ! i)) tot)"
    by (rule spill_clamp_balance)
  show ?thesis using bal by (simp add: i t sp v e)
qed

text \<open>
  The theorem at both hours of the flood run: the first hour is flagged (its
  balance is 70, below the minimum 100, and the storage is set to 100), the
  second is not (it ends at the maximum 120 after spilling 205).
\<close>

theorem storage_conservation_witness:
  "pseudo_black_box_schedule flood 20 100 120 150 unit_multipliers = Inr flood_schedule
   \<and> (0::nat) < length flood_schedule \<and> (1::nat) < length flood_schedule
   \<and> violation_storage_min (flood_schedule ! 0)
   \<and> storage_end (flood_schedule ! 0) = 100
   \<and> storage_before 20 flood_schedule 0 + inflow_total (flood_schedule ! 0)
        - release_total (flood_schedule ! 0) - spillage (flood_schedule ! 0) = 70
   \<and> \<not> violation_storage_min (flood_schedule ! 1)
   \<and> storage_end (flood_schedule ! 1)
        = storage_before 20 flood_schedule 1 + inflow_total (flood_schedule ! 1)
            - release_total (flood_schedule ! 1) - spillage (flood_schedule ! 1)"
proof -
  have l0: "(0::nat) < length flood_schedule" and l1: "(1::nat) < length flood_schedule"
    by (simp_all add: flood_schedule_def)
  have v0: "violation_storage_min (flood_schedule ! 0)"
    and v1: "\<not> violation_storage_min (flood_schedule ! 1)"
    by (simp_all add: flood_schedule_def)
  have b0: "storage_before 20 flood_schedule 0 + inflow_total (flood_schedule ! 0)
        - release_total (flood_schedule ! 0) - spillage (flood_schedule ! 0) = 70"
    by (simp add: flood_schedule_def storage_before_def)
  from storage_conservation [OF flood_run l0] v0
  have e0: "storage_end (flood_schedule ! 0) = 100" by blast
  from storage_conservation [OF flood_run l1] v1
  have e1: "storage_end (flood_schedule ! 1)
        = storage_before 20 flood_schedule 1 + inflow_total (flood_schedule ! 1)
            - release_total (flood_schedule ! 1) - spillage (flood_schedule ! 1)" by blast
  from flood_run l0 l1 v0 e0 b0 v1 e1 show ?thesis by blast
qed

text \<open>
  Claim C4 (bounds). When \<open>storage_min \<le> storage_max\<close>, the \<open>storage_end\<close> of
  every row of a schedule lies between the two.
\<close>

theorem storage_within_bounds:
  assumes "pseudo_black_box_schedule inputs ss smin smax cap m = Inr sched"
      and "smin \<le> smax" and "row \<in> set sched"
  shows "smin \<le> storage_end row \<and> storage_end row \<le> smax"
proof -
  obtain df where df: "apply_multipliers m inputs = Inr df"
    using schedule_multipliers [OF assms(1)] by blast
  from assms(3) obtain i where i: "i < length sched" and row: "row = sched ! i"
    by (auto simp: in_set_conv_nth)
  from schedule_hours(2) [OF assms(1) df i]
  have step: "hour_step smin smax cap (storage_before ss sched i) (df ! i) = Inr row"
    by (simp add: row)
  show ?thesis
    using hour_step_bounds(1) [OF step] hour_step_bounds(2) [OF step assms(2)] by simp
qed

text \<open>The theorem at the second hour of the flood run, which ends at the maximum.\<close>

theorem storage_within_bounds_witness:
  "pseudo_black_box_schedule flood 20 100 120 150 unit_multipliers = Inr flood_schedule
   \<and> (100::real) \<le> 120
   \<and> flood_schedule ! 1 \<in> set flood_schedule
   \<and> 100 \<le> storage_end (flood_schedule ! 1) \<and> storage_end (flood_schedule ! 1) \<le> 120"
proof -
  have le: "(100::real) \<le> 120" by simp
  have mem: "flood_schedule ! 1 \<in> set flood_schedule" by (simp add: flood_schedule_def)
  from storage_within_bounds [OF flood_run le mem] flood_run le mem
  show ?thesis by blast
qed

text \<open>
  Claim C3 (the minimum is never violated on sane inputs). When
  \<open>storage_start \<ge> storage_min\<close>, \<open>storage_min \<le> storage_max\<close> and every
  multiplier-adjusted input value is non-negative, then in every hour of a
  schedule \<open>release_total\<close> is at most \<open>inflow_total\<close> plus the storage above
  the minimum, \<open>storage_end\<close> is at least \<open>storage_min\<close>, and the violation
  flag is false.
\<close>

theorem min_clamp_unreachable:
  assumes "pseudo_black_box_schedule inputs ss smin smax cap m = Inr sched"
      and "apply_multipliers m inputs = Inr df"
      and "smin \<le> ss" and "smin \<le> smax"
      and "list_all nonneg_row df"
      and "i < length sched"
  shows "release_total (sched ! i)
           \<le> inflow_total (sched ! i) + (storage_before ss sched i - smin)
         \<and> smin \<le> storage_end (sched ! i)
         \<and> \<not> violation_storage_min (sched ! i)"
proof -
  let ?st = "storage_before ss sched i"
  let ?r = "df ! i"
  have st: "smin \<le> ?st" using assms(1,3,6) by (rule storage_before_ge)
  have len: "length sched = length df" using assms(1,2) by (rule schedule_hours(1))
  then have "?r \<in> set df" using assms(6) by simp
  with assms(5) have nn: "nonneg_row ?r" by (simp add: list_all_iff)
  from schedule_hours(2) [OF assms(1,2,6)]
  have step: "hour_step smin smax cap ?st ?r = Inr (sched ! i)" .
  then obtain outs s4o s5o d1o d2o tot where
    al: "hour_alloc smin ?st ?r = Inr outs" and
    ec: "enforce_cap cap outs = Inr (s4o, s5o, d1o, d2o, tot)" and
    i: "inflow_total (sched ! i) = inflow ?r" and
    t: "release_total (sched ! i) = tot" and
    v: "violation_storage_min (sched ! i)
          = (fst (spill_clamp smax ?st (inflow ?r) tot) < smin)"
    by (rule hour_step_Inr)
  have av: "available smin ?st ?r = inflow ?r + (?st - smin)"
    using st by (simp add: available_def)
  have inf0: "0 \<le> inflow ?r" using nn by (simp add: nonneg_row_def inflow_def)
  have "precap_total outs \<le> available smin ?st ?r"
  proof (rule allocate_total_le)
    show "0 \<le> available smin ?st ?r" using av inf0 st by simp
    show "0 \<le> commitment_S4_min ?r" using nn by (simp add: nonneg_row_def)
    show "0 \<le> commitment_S5_min ?r" using nn by (simp add: nonneg_row_def)
    show "0 \<le> demand_D1 ?r" using nn by (simp add: nonneg_row_def)
    show "0 \<le> demand_D2 ?r" using nn by (simp add: nonneg_row_def)
    show "allocate (available smin ?st ?r) (commitment_S4_min ?r) (commitment_S5_min ?r)
            (demand_D1 ?r) (demand_D2 ?r) = Inr outs"
      using al by (simp add: hour_alloc_def)
  qed
  moreover have "tot \<le> precap_total outs" using ec by (rule enforce_cap_total_le)
  ultimately have le: "tot \<le> inflow ?r + (?st - smin)" using av by simp
  then have "smin \<le> ?st + inflow ?r - tot" by simp
  with assms(4) have "smin \<le> fst (spill_clamp smax ?st (inflow ?r) tot)"
    by (rule spill_clamp_ge)
  then have nv: "\<not> violation_storage_min (sched ! i)" using v by simp
  have "smin \<le> storage_end (sched ! i)" using step by (rule hour_step_bounds(1))
  with le nv show ?thesis by (simp add: i t)
qed

text \<open>The theorem at the last hour of the dry spell, the hour of the shortage.\<close>

theorem min_clamp_unreachable_witness:
  "pseudo_black_box_schedule dry_spell 100 100 1000 1000 unit_multipliers
     = Inr dry_spell_schedule
   \<and> apply_multipliers unit_multipliers dry_spell = Inr dry_spell
   \<and> (100::real) \<le> 100 \<and> (100::real) \<le> 1000
   \<and> list_all nonneg_row dry_spell
   \<and> (2::nat) < length dry_spell_schedule
   \<and> release_total (dry_spell_schedule ! 2)
        \<le> inflow_total (dry_spell_schedule ! 2)
            + (storage_before 100 dry_spell_schedule 2 - 100)
   \<and> 100 \<le> storage_end (dry_spell_schedule ! 2)
   \<and> \<not> violation_storage_min (dry_spell_schedule ! 2)"
proof -
  have a: "(100::real) \<le> 100" and b: "(100::real) \<le> 1000" by simp_all
  have nn: "list_all nonneg_row dry_spell"
    by (simp add: dry_spell_def sample_hour_def nonneg_row_def)
  have l: "(2::nat) < length dry_spell_schedule" by (simp add: dry_spell_schedule_def)
  from min_clamp_unreachable [OF dry_spell_run unit_multipliers_apply a b nn l]
    dry_spell_run unit_multipliers_apply [of dry_spell] a b nn l
  show ?thesis by blast
qed

section \<open>Claims about the releases\<close>

text \<open>
  Claim C5 (the cap). In every hour of a schedule \<open>release_total\<close> is at most
  \<open>max_release_per_hour\<close>. Whenever the sum of the four allocated releases
  exceeds the cap, each of the four is the allocated release times
  \<open>cap / sum\<close>, so the ratio of any two of them is the ratio of the allocated
  releases, and \<open>release_total\<close> is the cap, which is also the sum of the four
  releases of the row.
\<close>

theorem cap_respected:
  assumes "pseudo_black_box_schedule inputs ss smin smax cap m = Inr sched"
      and "apply_multipliers m inputs = Inr df"
      and "i < length sched"
  shows "release_total (sched ! i) \<le> cap
         \<and> (\<exists>s4_out s5_out d1_out d2_out.
              hour_alloc smin (storage_before ss sched i) (df ! i)
                = Inr (s4_out, s5_out, d1_out, d2_out)
              \<and> (cap < s4_out + s5_out + d1_out + d2_out \<longrightarrow>
                   release_S4_river (sched ! i)
                     = s4_out * (cap / (s4_out + s5_out + d1_out + d2_out))
                   \<and> release_S5_downstream (sched ! i)
                     = s5_out * (cap / (s4_out + s5_out + d1_out + d2_out))
                   \<and> release_D1 (sched ! i)
                     = d1_out * (cap / (s4_out + s5_out + d1_out + d2_out))
                   \<and> release_D2 (sched ! i)
                     = d2_out * (cap / (s4_out + s5_out + d1_out + d2_out))
                   \<and> release_S4_river (sched ! i) * s5_out
                     = release_S5_downstream (sched ! i) * s4_out
                   \<and> release_S4_river (sched ! i) * d1_out
                     = release_D1 (sched ! i) * s4_out
                   \<and> release_S4_river (sched ! i) * d2_out
                     = release_D2 (sched ! i) * s4_out
                   \<and> release_S5_downstream (sched ! i) * d1_out
                     = release_D1 (sched ! i) * s5_out
                   \<and> release_S5_downstream (sched ! i) * d2_out
                     = release_D2 (sched ! i) * s5_out
                   \<and> release_D1 (sched ! i) * d2_out = release_D2 (sched ! i) * d1_out
                   \<and> release_total (sched ! i) = cap
                   \<and> release_S4_river (sched ! i) + release_S5_downstream (sched ! i)
                       + release_D1 (sched ! i) + release_D2 (sched ! i) = cap))"
proof -
  let ?st = "storage_before ss sched i"
  let ?r = "df ! i"
  from schedule_hours(2) [OF assms(1,2,3)]
  have "hour_step smin smax cap ?st ?r = Inr (sched ! i)" .
  then obtain outs s4o s5o d1o d2o tot where
    al: "hour_alloc smin ?st ?r = Inr outs" and
    ec: "enforce_cap cap outs = Inr (s4o, s5o, d1o, d2o, tot)" and
    s4: "release_S4_river (sched ! i) = s4o" and
    s5: "release_S5_downstream (sched ! i) = s5o" and
    d1: "release_D1 (sched ! i) = d1o" and
    d2: "release_D2 (sched ! i) = d2o" and
    t: "release_total (sched ! i) = tot"
    by (rule hour_step_Inr)
  obtain a b c d where outs: "outs = (a, b, c, d)" by (cases outs)
  have le: "release_total (sched ! i) \<le> cap"
    using enforce_cap_le [OF ec] t by simp
  have alloc: "hour_alloc smin ?st ?r = Inr (a, b, c, d)" using al outs by simp
  have scaled:
    "release_S4_river (sched ! i) = a * (cap / (a + b + c + d))
     \<and> release_S5_downstream (sched ! i) = b * (cap / (a + b + c + d))
     \<and> release_D1 (sched ! i) = c * (cap / (a + b + c + d))
     \<and> release_D2 (sched ! i) = d * (cap / (a + b + c + d))
     \<and> release_S4_river (sched ! i) * b = release_S5_downstream (sched ! i) * a
     \<and> release_S4_river (sched ! i) * c = release_D1 (sched ! i) * a
     \<and> release_S4_river (sched ! i) * d = release_D2 (sched ! i) * a
     \<and> release_S5_downstream (sched ! i) * c = release_D1 (sched ! i) * b
     \<and> release_S5_downstream (sched ! i) * d = release_D2 (sched ! i) * b
     \<and> release_D1 (sched ! i) * d = release_D2 (sched ! i) * c
     \<and> release_total (sched ! i) = cap
     \<and> release_S4_river (sched ! i) + release_S5_downstream (sched ! i)
         + release_D1 (sched ! i) + release_D2 (sched ! i) = cap"
    if bind: "cap < a + b + c + d"
  proof -
    let ?k = "cap / (a + b + c + d)"
    from enforce_cap_bound [of cap outs a b c d s4o s5o d1o d2o tot] bind ec outs
    have sc: "s4o = a * ?k" "s5o = b * ?k" "d1o = c * ?k" "d2o = d * ?k" "tot = cap"
      and nz: "a + b + c + d \<noteq> 0"
      by simp_all
    have "a * ?k + b * ?k + c * ?k + d * ?k = (a + b + c + d) * ?k"
      by (simp only: distrib_right)
    also have "\<dots> = cap" using nz by simp
    finally have sum: "a * ?k + b * ?k + c * ?k + d * ?k = cap" .
    show ?thesis using sum by (simp add: s4 s5 d1 d2 t sc)
  qed
  from le alloc scaled show ?thesis by blast
qed

text \<open>
  The theorem at the first hour of the flood run, where the allocated releases
  40, 35, 55 and 45 sum to 175, above the cap of 150.
\<close>

theorem cap_respected_witness:
  "pseudo_black_box_schedule flood 20 100 120 150 unit_multipliers = Inr flood_schedule
   \<and> apply_multipliers unit_multipliers flood = Inr flood
   \<and> (0::nat) < length flood_schedule
   \<and> hour_alloc 100 (storage_before 20 flood_schedule 0) (flood ! 0) = Inr (40, 35, 55, 45)
   \<and> release_total (flood_schedule ! 0) \<le> 150
   \<and> release_total (flood_schedule ! 0) = 150
   \<and> release_S4_river (flood_schedule ! 0) = 40 * (150 / (40 + 35 + 55 + 45))
   \<and> release_D1 (flood_schedule ! 0) * 45 = release_D2 (flood_schedule ! 0) * 55"
proof -
  have l: "(0::nat) < length flood_schedule" by (simp add: flood_schedule_def)
  have al: "hour_alloc 100 (storage_before 20 flood_schedule 0) (flood ! 0)
              = Inr (40, 35, 55, 45)"
    by (simp add: flood_def storage_before_def engine_defs)
  from cap_respected [OF flood_run unit_multipliers_apply l]
  have "release_total (flood_schedule ! 0) \<le> 150
   \<and> release_total (flood_schedule ! 0) = 150
   \<and> release_S4_river (flood_schedule ! 0) = 40 * (150 / (40 + 35 + 55 + 45))
   \<and> release_D1 (flood_schedule ! 0) * 45 = release_D2 (flood_schedule ! 0) * 55"
    unfolding al by simp
  with flood_run unit_multipliers_apply [of flood] l al show ?thesis by blast
qed

text \<open>
  Claim C1 (commitment priority), as amended. In every hour in which the
  available water is at least the sum of the two adjusted commitments and the
  sum of the four allocated releases does not exceed \<open>max_release_per_hour\<close>,
  \<open>release_S4_river\<close> is the adjusted \<open>commitment_S4_min\<close> and
  \<open>release_S5_downstream\<close> is the adjusted \<open>commitment_S5_min\<close>, whatever the
  demands. (When the cap binds, lines 113--119 scale the commitments too.)
\<close>

theorem commitments_met_in_full:
  assumes "pseudo_black_box_schedule inputs ss smin smax cap m = Inr sched"
      and "apply_multipliers m inputs = Inr df"
      and "i < length sched"
      and "commitment_S4_min (df ! i) + commitment_S5_min (df ! i)
             \<le> available smin (storage_before ss sched i) (df ! i)"
      and "hour_alloc smin (storage_before ss sched i) (df ! i) = Inr outs"
      and "precap_total outs \<le> cap"
  shows "release_S4_river (sched ! i) = commitment_S4_min (df ! i)
         \<and> release_S5_downstream (sched ! i) = commitment_S5_min (df ! i)"
proof -
  let ?st = "storage_before ss sched i"
  let ?r = "df ! i"
  from schedule_hours(2) [OF assms(1,2,3)]
  have "hour_step smin smax cap ?st ?r = Inr (sched ! i)" .
  then obtain outs' s4o s5o d1o d2o tot where
    al: "hour_alloc smin ?st ?r = Inr outs'" and
    ec: "enforce_cap cap outs' = Inr (s4o, s5o, d1o, d2o, tot)" and
    s4: "release_S4_river (sched ! i) = s4o" and
    s5: "release_S5_downstream (sched ! i) = s5o"
    by (rule hour_step_Inr)
  from al assms(5) have same: "outs' = outs" by simp
  from allocate_full [OF assms(4), of "demand_D1 ?r" "demand_D2 ?r"] assms(5)
  obtain d1a d2a where outs: "outs = (commitment_S4_min ?r, commitment_S5_min ?r, d1a, d2a)"
    by (auto simp: hour_alloc_def)
  from enforce_cap_unbound [OF assms(6)] ec same
  have "outs = (s4o, s5o, d1o, d2o)" by simp
  with outs show ?thesis by (simp add: s4 s5)
qed

text \<open>The theorem at the first hour of the dry spell.\<close>

theorem commitments_met_in_full_witness:
  "pseudo_black_box_schedule dry_spell 100 100 1000 1000 unit_multipliers
     = Inr dry_spell_schedule
   \<and> apply_multipliers unit_multipliers dry_spell = Inr dry_spell
   \<and> (0::nat) < length dry_spell_schedule
   \<and> commitment_S4_min (dry_spell ! 0) + commitment_S5_min (dry_spell ! 0)
        \<le> available 100 (storage_before 100 dry_spell_schedule 0) (dry_spell ! 0)
   \<and> hour_alloc 100 (storage_before 100 dry_spell_schedule 0) (dry_spell ! 0)
        = Inr (40, 35, 55, 45)
   \<and> precap_total (40, 35, 55, 45) \<le> 1000
   \<and> release_S4_river (dry_spell_schedule ! 0) = commitment_S4_min (dry_spell ! 0)
   \<and> release_S5_downstream (dry_spell_schedule ! 0) = commitment_S5_min (dry_spell ! 0)"
proof -
  have l: "(0::nat) < length dry_spell_schedule" by (simp add: dry_spell_schedule_def)
  have av: "commitment_S4_min (dry_spell ! 0) + commitment_S5_min (dry_spell ! 0)
        \<le> available 100 (storage_before 100 dry_spell_schedule 0) (dry_spell ! 0)"
    by (simp add: dry_spell_def storage_before_def engine_defs)
  have al: "hour_alloc 100 (storage_before 100 dry_spell_schedule 0) (dry_spell ! 0)
        = Inr (40, 35, 55, 45)"
    by (simp add: dry_spell_def storage_before_def engine_defs)
  have pc: "precap_total (40, 35, 55, 45) \<le> 1000" by simp
  from commitments_met_in_full [OF dry_spell_run unit_multipliers_apply l av al pc]
    dry_spell_run unit_multipliers_apply [of dry_spell] l av al pc
  show ?thesis by blast
qed

text \<open>
  The claim as stated, without the condition on the cap, fails in the capped
  run: 500 units are stored and 200 flow in, far more than the commitments of
  75, yet with a cap of 35 the river receives 8 instead of 40.
\<close>

theorem commitments_scaled_by_cap:
  "pseudo_black_box_schedule capped 500 100 1000 35 unit_multipliers = Inr capped_schedule
   \<and> apply_multipliers unit_multipliers capped = Inr capped
   \<and> commitment_S4_min (capped ! 0) + commitment_S5_min (capped ! 0)
        \<le> available 100 (storage_before 500 capped_schedule 0) (capped ! 0)
   \<and> release_S4_river (capped_schedule ! 0) = 8
   \<and> commitment_S4_min (capped ! 0) = 40
   \<and> release_S4_river (capped_schedule ! 0) \<noteq> commitment_S4_min (capped ! 0)
   \<and> release_S5_downstream (capped_schedule ! 0) \<noteq> commitment_S5_min (capped ! 0)"
proof -
  have "commitment_S4_min (capped ! 0) + commitment_S5_min (capped ! 0)
        \<le> available 100 (storage_before 500 capped_schedule 0) (capped ! 0)"
    by (simp add: capped_def storage_before_def engine_defs)
  moreover have "release_S4_river (capped_schedule ! 0) = 8"
    "commitment_S4_min (capped ! 0) = 40"
    "release_S4_river (capped_schedule ! 0) \<noteq> commitment_S4_min (capped ! 0)"
    "release_S5_downstream (capped_schedule ! 0) \<noteq> commitment_S5_min (capped ! 0)"
    by (simp_all add: capped_def capped_schedule_def sample_hour_def)
  ultimately show ?thesis using capped_run unit_multipliers_apply [of capped] by blast
qed

text \<open>
  Claim C6 (extreme shortage), as amended. In every hour in which the available
  water is less than the sum of the two adjusted commitments, both demand
  releases are zero; and when the scaled commitments together do not exceed
  \<open>max_release_per_hour\<close>, each commitment release is the adjusted commitment
  times \<open>available / (commitment_1 + commitment_2 + 1e-6)\<close>.
\<close>

theorem extreme_shortage:
  assumes "pseudo_black_box_schedule inputs ss smin smax cap m = Inr sched"
      and "apply_multipliers m inputs = Inr df"
      and "i < length sched"
      and "available smin (storage_before ss sched i) (df ! i)
             < commitment_S4_min (df ! i) + commitment_S5_min (df ! i)"
  shows "release_D1 (sched ! i) = 0 \<and> release_D2 (sched ! i) = 0
         \<and> ((commitment_S4_min (df ! i) + commitment_S5_min (df ! i))
               * (available smin (storage_before ss sched i) (df ! i)
                   / (commitment_S4_min (df ! i) + commitment_S5_min (df ! i) + 1 / 1000000))
               \<le> cap \<longrightarrow>
              release_S4_river (sched ! i)
                = commitment_S4_min (df ! i)
                    * (available smin (storage_before ss sched i) (df ! i)
                        / (commitment_S4_min (df ! i) + commitment_S5_min (df ! i) + 1 / 1000000))
              \<and> release_S5_downstream (sched ! i)
                = commitment_S5_min (df ! i)
                    * (available smin (storage_before ss sched i) (df ! i)
                        / (commitment_S4_min (df ! i) + commitment_S5_min (df ! i) + 1 / 1000000)))"
proof -
  let ?st = "storage_before ss sched i"
  let ?r = "df ! i"
  let ?scale = "available smin ?st ?r / (commitment_S4_min ?r + commitment_S5_min ?r + 1 / 1000000)"
  from schedule_hours(2) [OF assms(1,2,3)]
  have "hour_step smin smax cap ?st ?r = Inr (sched ! i)" .
  then obtain outs s4o s5o d1o d2o tot where
    al: "hour_alloc smin ?st ?r = Inr outs" and
    ec: "enforce_cap cap outs = Inr (s4o, s5o, d1o, d2o, tot)" and
    s4: "release_S4_river (sched ! i) = s4o" and
    s5: "release_S5_downstream (sched ! i) = s5o" and
    d1: "release_D1 (sched ! i) = d1o" and
    d2: "release_D2 (sched ! i) = d2o"
    by (rule hour_step_Inr)
  have outs: "outs = (commitment_S4_min ?r * ?scale, commitment_S5_min ?r * ?scale, 0, 0)"
    using allocate_shortage [OF assms(4)] al by (simp add: hour_alloc_def)
  have zero: "d1o = 0 \<and> d2o = 0"
    using ec unfolding outs by (rule enforce_cap_zero_demands)
  have "s4o = commitment_S4_min ?r * ?scale \<and> s5o = commitment_S5_min ?r * ?scale"
    if "(commitment_S4_min ?r + commitment_S5_min ?r) * ?scale \<le> cap"
  proof -
    have "precap_total outs = (commitment_S4_min ?r + commitment_S5_min ?r) * ?scale"
      by (simp add: outs distrib_right add_divide_distrib)
    with that have "precap_total outs \<le> cap" by (simp only:)
    from enforce_cap_unbound [OF this ec] outs show ?thesis by simp
  qed
  with zero show ?thesis by (simp add: s4 s5 d1 d2)
qed

text \<open>
  The theorem at the last hour of the dry spell: 30 units are available for
  commitments of 75.
\<close>

theorem extreme_shortage_witness:
  "pseudo_black_box_schedule dry_spell 100 100 1000 1000 unit_multipliers
     = Inr dry_spell_schedule
   \<and> apply_multipliers unit_multipliers dry_spell = Inr dry_spell
   \<and> (2::nat) < length dry_spell_schedule
   \<and> available 100 (storage_before 100 dry_spell_schedule 2) (dry_spell ! 2)
        < commitment_S4_min (dry_spell ! 2) + commitment_S5_min (dry_spell ! 2)
   \<and> release_D1 (dry_spell_schedule ! 2) = 0 \<and> release_D2 (dry_spell_schedule ! 2) = 0
   \<and> release_S4_river (dry_spell_schedule ! 2) = 40 * (30 / (40 + 35 + 1 / 1000000))
   \<and> release_S5_downstream (dry_spell_schedule ! 2) = 35 * (30 / (40 + 35 + 1 / 1000000))"
proof -
  have l: "(2::nat) < length dry_spell_schedule" by (simp add: dry_spell_schedule_def)
  have av: "available 100 (storage_before 100 dry_spell_schedule 2) (dry_spell ! 2) = 30"
    by (simp add: dry_spell_def dry_spell_schedule_def storage_before_def engine_defs)
  have c: "commitment_S4_min (dry_spell ! 2) = 40" "commitment_S5_min (dry_spell ! 2) = 35"
    by (simp_all add: dry_spell_def sample_hour_def)
  have sh: "available 100 (storage_before 100 dry_spell_schedule 2) (dry_spell ! 2)
        < commitment_S4_min (dry_spell ! 2) + commitment_S5_min (dry_spell ! 2)"
    by (simp add: av c)
  from extreme_shortage [OF dry_spell_run unit_multipliers_apply l sh]
  have "release_D1 (dry_spell_schedule ! 2) = 0 \<and> release_D2 (dry_spell_schedule ! 2) = 0
   \<and> release_S4_river (dry_spell_schedule ! 2) = 40 * (30 / (40 + 35 + 1 / 1000000))
   \<and> release_S5_downstream (dry_spell_schedule ! 2) = 35 * (30 / (40 + 35 + 1 / 1000000))"
    unfolding av c by simp
  with dry_spell_run unit_multipliers_apply [of dry_spell] l sh show ?thesis by blast
qed

text \<open>
  The claim as stated scales by \<open>available / (commitment_1 + commitment_2)\<close>.
  In the last hour of the dry spell that factor is \<open>30 / 75\<close> and would give the
  river 16; line 91 divides by \<open>75 + 1e-6\<close> and the river receives less.
\<close>

theorem shortage_factor_has_epsilon:
  "pseudo_black_box_schedule dry_spell 100 100 1000 1000 unit_multipliers
     = Inr dry_spell_schedule
   \<and> apply_multipliers unit_multipliers dry_spell = Inr dry_spell
   \<and> available 100 (storage_before 100 dry_spell_schedule 2) (dry_spell ! 2)
        < commitment_S4_min (dry_spell ! 2) + commitment_S5_min (dry_spell ! 2)
   \<and> commitment_S4_min (dry_spell ! 2)
        * (available 100 (storage_before 100 dry_spell_schedule 2) (dry_spell ! 2)
            / (commitment_S4_min (dry_spell ! 2) + commitment_S5_min (dry_spell ! 2))) = 16
   \<and> release_S4_river (dry_spell_schedule ! 2) < 16
   \<and> release_S4_river (dry_spell_schedule ! 2)
        \<noteq> commitment_S4_min (dry_spell ! 2)
            * (available 100 (storage_before 100 dry_spell_schedule 2) (dry_spell ! 2)
                / (commitment_S4_min (dry_spell ! 2) + commitment_S5_min (dry_spell ! 2)))"
proof -
  have av: "available 100 (storage_before 100 dry_spell_schedule 2) (dry_spell ! 2) = 30"
    by (simp add: dry_spell_def dry_spell_schedule_def storage_before_def engine_defs)
  have c: "commitment_S4_min (dry_spell ! 2) = 40" "commitment_S5_min (dry_spell ! 2) = 35"
    by (simp_all add: dry_spell_def sample_hour_def)
  have r: "release_S4_river (dry_spell_schedule ! 2) = 1200000000 / 75000001"
    by (simp add: dry_spell_schedule_def)
  have "release_S4_river (dry_spell_schedule ! 2) < 16" unfolding r by simp
  then show ?thesis
    using dry_spell_run unit_multipliers_apply [of dry_spell] by (simp add: av c)
qed

text \<open>
  Claim C7 (proportional fairness), as amended. Take an hour in which the
  commitments are met in full and the water that remains is less than the sum
  of the two adjusted demands. If that sum is at least \<open>1e-6\<close>, some water
  remains, \<open>demand_2\<close> is not zero and the cap is not zero (or does not
  bind), then \<open>release_D2\<close> is not zero and
  \<open>release_D1 / release_D2 = demand_1 / demand_2\<close>. In such an hour each
  demand receives its share \<open>remaining * (demand / (demand_1 + demand_2))\<close>,
  times \<open>cap / available\<close> when the cap binds; when the sum of the demands
  is below \<open>1e-6\<close> both receive nothing. In every case
  \<open>release_D1 * demand_2 = release_D2 * demand_1\<close>.
\<close>

theorem proportional_fairness:
  assumes "pseudo_black_box_schedule inputs ss smin smax cap m = Inr sched"
      and "apply_multipliers m inputs = Inr df"
      and "i < length sched"
      and "avail = available smin (storage_before ss sched i) (df ! i)"
      and "remaining = avail - (commitment_S4_min (df ! i) + commitment_S5_min (df ! i))"
      and "demand_sum = demand_D1 (df ! i) + demand_D2 (df ! i)"
      and "commitment_S4_min (df ! i) + commitment_S5_min (df ! i) \<le> avail"
      and "remaining < demand_sum"
  shows "(1 / 1000000 \<le> demand_sum \<and> 0 < remaining \<and> demand_D2 (df ! i) \<noteq> 0
            \<and> (cap \<noteq> 0 \<or> avail \<le> cap) \<longrightarrow>
              release_D2 (sched ! i) \<noteq> 0
              \<and> release_D1 (sched ! i) / release_D2 (sched ! i)
                   = demand_D1 (df ! i) / demand_D2 (df ! i))
         \<and> (1 / 1000000 \<le> demand_sum \<and> avail \<le> cap \<longrightarrow>
              release_D1 (sched ! i) = remaining * (demand_D1 (df ! i) / demand_sum)
              \<and> release_D2 (sched ! i) = remaining * (demand_D2 (df ! i) / demand_sum))
         \<and> (1 / 1000000 \<le> demand_sum \<and> cap < avail \<longrightarrow>
              release_D1 (sched ! i)
                = remaining * (demand_D1 (df ! i) / demand_sum) * (cap / avail)
              \<and> release_D2 (sched ! i)
                = remaining * (demand_D2 (df ! i) / demand_sum) * (cap / avail))
         \<and> (demand_sum < 1 / 1000000 \<longrightarrow>
              release_D1 (sched ! i) = 0 \<and> release_D2 (sched ! i) = 0)
         \<and> release_D1 (sched ! i) * demand_D2 (df ! i)
              = release_D2 (sched ! i) * demand_D1 (df ! i)
         \<and> (release_D2 (sched ! i) \<noteq> 0 \<and> demand_D2 (df ! i) \<noteq> 0 \<longrightarrow>
              release_D1 (sched ! i) / release_D2 (sched ! i)
                = demand_D1 (df ! i) / demand_D2 (df ! i))"
proof -
  let ?st = "storage_before ss sched i"
  let ?r = "df ! i"
  let ?s4 = "commitment_S4_min ?r" and ?s5 = "commitment_S5_min ?r"
  let ?d1 = "demand_D1 ?r" and ?d2 = "demand_D2 ?r"
  have full: "?s4 + ?s5 \<le> avail" by (rule assms(7))
  have short: "avail - (?s4 + ?s5) < ?d1 + ?d2" using assms(5,6,8) by simp
  from schedule_hours(2) [OF assms(1,2,3)]
  have "hour_step smin smax cap ?st ?r = Inr (sched ! i)" .
  then obtain outs s4o s5o d1o d2o tot where
    al: "hour_alloc smin ?st ?r = Inr outs" and
    ec: "enforce_cap cap outs = Inr (s4o, s5o, d1o, d2o, tot)" and
    d1: "release_D1 (sched ! i) = d1o" and
    d2: "release_D2 (sched ! i) = d2o"
    by (rule hour_step_Inr)
  have alloc: "allocate avail ?s4 ?s5 ?d1 ?d2 = Inr outs"
    using al by (simp add: hour_alloc_def assms(4))
  \<comment> \<open>the cross-multiplied form, in every case\<close>
  obtain a b c d where outs: "outs = (a, b, c, d)" by (cases outs)
  have "c * ?d2 = d * ?d1"
    using allocate_ration [OF full short] alloc outs by simp
  with ec outs have cross: "d1o * ?d2 = d2o * ?d1"
    by (simp add: enforce_cap_cross)
  then have quot: "d1o / d2o = ?d1 / ?d2" if "d2o \<noteq> 0" "?d2 \<noteq> 0"
    using that by (simp add: frac_eq_eq)
  \<comment> \<open>demands below the guard of line 103\<close>
  have tiny: "d1o = 0 \<and> d2o = 0" if "demand_sum < 1 / 1000000"
  proof -
    from that have "?d1 + ?d2 < 1 / 1000000" by (simp add: assms(6))
    from allocate_ration_tiny [OF full short this] alloc
    have "outs = (?s4, ?s5, 0, 0)" by simp
    with ec show ?thesis by (simp add: enforce_cap_zero_demands)
  qed
  \<comment> \<open>demands at or above it: the fair shares of what remains\<close>
  have share: "outs = (?s4, ?s5, remaining * (?d1 / demand_sum), remaining * (?d2 / demand_sum))
               \<and> precap_total outs = avail"
    if "1 / 1000000 \<le> demand_sum"
  proof -
    from that have big: "1 / 1000000 \<le> ?d1 + ?d2" by (simp add: assms(6))
    then have nz: "?d1 + ?d2 \<noteq> 0" by auto
    from allocate_ration_share [OF full short big] alloc
    have o: "outs = (?s4, ?s5, (avail - (?s4 + ?s5)) * (?d1 / (?d1 + ?d2)),
                     (avail - (?s4 + ?s5)) * (?d2 / (?d1 + ?d2)))" by simp
    then have "precap_total outs = avail" using ration_total [OF nz] by simp
    with o show ?thesis by (simp add: assms(5,6))
  qed
  have unbound: "d1o = remaining * (?d1 / demand_sum) \<and> d2o = remaining * (?d2 / demand_sum)"
    if "1 / 1000000 \<le> demand_sum" "avail \<le> cap"
  proof -
    from share [OF that(1)] have o: "outs = (?s4, ?s5, remaining * (?d1 / demand_sum),
       remaining * (?d2 / demand_sum))" and t: "precap_total outs = avail" by blast+
    from that(2) have "precap_total outs \<le> cap" by (simp only: t)
    from enforce_cap_unbound [OF this ec] o show ?thesis by simp
  qed
  have bound: "d1o = remaining * (?d1 / demand_sum) * (cap / avail)
               \<and> d2o = remaining * (?d2 / demand_sum) * (cap / avail) \<and> avail \<noteq> 0"
    if "1 / 1000000 \<le> demand_sum" "cap < avail"
  proof -
    from share [OF that(1)] have o: "outs = (?s4, ?s5, remaining * (?d1 / demand_sum),
       remaining * (?d2 / demand_sum))" and t: "precap_total outs = avail" by blast+
    from that(2) have b: "cap < precap_total outs" by (simp only: t)
    from ec have "enforce_cap cap (?s4, ?s5, remaining * (?d1 / demand_sum),
       remaining * (?d2 / demand_sum)) = Inr (s4o, s5o, d1o, d2o, tot)" by (simp only: o)
    from enforce_cap_bound [OF b this o]
    show ?thesis by (simp only: t) blast
  qed
  have nonzero: "d2o \<noteq> 0"
    if "1 / 1000000 \<le> demand_sum" "0 < remaining" "?d2 \<noteq> 0" "cap \<noteq> 0 \<or> avail \<le> cap"
  proof (cases "avail \<le> cap")
    case True
    from unbound [OF that(1) True] that show ?thesis by auto
  next
    case False
    then have c: "cap < avail" by simp
    with that(4) have "cap \<noteq> 0" by auto
    with bound [OF that(1) c] that show ?thesis by auto
  qed
  from nonzero quot tiny unbound bound cross show ?thesis
    unfolding d1 d2 by blast
qed

text \<open>
  The theorem at the second hour of the dry spell: of 125 units available, 50
  remain for demands of 55 and 45, which receive 27.5 and 22.5.
\<close>

theorem proportional_fairness_witness:
  "pseudo_black_box_schedule dry_spell 100 100 1000 1000 unit_multipliers
     = Inr dry_spell_schedule
   \<and> apply_multipliers unit_multipliers dry_spell = Inr dry_spell
   \<and> (1::nat) < length dry_spell_schedule
   \<and> 125 = available 100 (storage_before 100 dry_spell_schedule 1) (dry_spell ! 1)
   \<and> 50 = 125 - (commitment_S4_min (dry_spell ! 1) + commitment_S5_min (dry_spell ! 1))
   \<and> 100 = demand_D1 (dry_spell ! 1) + demand_D2 (dry_spell ! 1)
   \<and> commitment_S4_min (dry_spell ! 1) + commitment_S5_min (dry_spell ! 1) \<le> 125
   \<and> (50::real) < 100
   \<and> (1::real) / 1000000 \<le> 100 \<and> (0::real) < 50 \<and> demand_D2 (dry_spell ! 1) \<noteq> 0
   \<and> (125::real) \<le> 1000
   \<and> release_D2 (dry_spell_schedule ! 1) \<noteq> 0
   \<and> release_D1 (dry_spell_schedule ! 1) / release_D2 (dry_spell_schedule ! 1)
        = demand_D1 (dry_spell ! 1) / demand_D2 (dry_spell ! 1)
   \<and> release_D1 (dry_spell_schedule ! 1) = 50 * (demand_D1 (dry_spell ! 1) / 100)
   \<and> release_D2 (dry_spell_schedule ! 1) = 50 * (demand_D2 (dry_spell ! 1) / 100)"
proof -
  have l: "(1::nat) < length dry_spell_schedule" by (simp add: dry_spell_schedule_def)
  have av: "125 = available 100 (storage_before 100 dry_spell_schedule 1) (dry_spell ! 1)"
    by (simp add: dry_spell_def dry_spell_schedule_def storage_before_def engine_defs)
  have r: "commitment_S4_min (dry_spell ! 1) = 40" "commitment_S5_min (dry_spell ! 1) = 35"
    "demand_D1 (dry_spell ! 1) = 55" "demand_D2 (dry_spell ! 1) = 45"
    by (simp_all add: dry_spell_def sample_hour_def)
  have rem: "50 = 125 - (commitment_S4_min (dry_spell ! 1) + commitment_S5_min (dry_spell ! 1))"
    using r by simp
  have dem: "100 = demand_D1 (dry_spell ! 1) + demand_D2 (dry_spell ! 1)"
    using r by simp
  have full: "commitment_S4_min (dry_spell ! 1) + commitment_S5_min (dry_spell ! 1) \<le> 125"
    using r by simp
  have short: "(50::real) < 100" by simp
  have big: "(1::real) / 1000000 \<le> 100" and some: "(0::real) < 50"
    and cap: "(125::real) \<le> 1000" by simp_all
  have nz: "demand_D2 (dry_spell ! 1) \<noteq> 0" using r by simp
  from proportional_fairness
    [OF dry_spell_run unit_multipliers_apply l av rem dem full short]
    big some nz cap
  have "release_D2 (dry_spell_schedule ! 1) \<noteq> 0
   \<and> release_D1 (dry_spell_schedule ! 1) / release_D2 (dry_spell_schedule ! 1)
        = demand_D1 (dry_spell ! 1) / demand_D2 (dry_spell ! 1)
   \<and> release_D1 (dry_spell_schedule ! 1) = 50 * (demand_D1 (dry_spell ! 1) / 100)
   \<and> release_D2 (dry_spell_schedule ! 1) = 50 * (demand_D2 (dry_spell ! 1) / 100)"
    by blast
  with dry_spell_run unit_multipliers_apply [of dry_spell] l av rem dem full short
    big some nz cap
  show ?thesis by blast
qed

text \<open>
  The claim as stated fails in the trickle run. The commitments are met, a
  ten-millionth remains for two demands of two ten-millionths each, both not
  zero; their sum is below \<open>1e-6\<close>, so line 104 gives both nothing, and the
  quotient of the releases is not the quotient of the demands, which is 1.
\<close>

theorem tiny_demands_get_nothing:
  "pseudo_black_box_schedule trickle 100 100 1000 1000 unit_multipliers = Inr trickle_schedule
   \<and> apply_multipliers unit_multipliers trickle = Inr trickle
   \<and> commitment_S4_min (trickle ! 0) + commitment_S5_min (trickle ! 0)
        \<le> available 100 (storage_before 100 trickle_schedule 0) (trickle ! 0)
   \<and> release_S4_river (trickle_schedule ! 0) = commitment_S4_min (trickle ! 0)
   \<and> release_S5_downstream (trickle_schedule ! 0) = commitment_S5_min (trickle ! 0)
   \<and> 0 < available 100 (storage_before 100 trickle_schedule 0) (trickle ! 0)
        - (commitment_S4_min (trickle ! 0) + commitment_S5_min (trickle ! 0))
   \<and> available 100 (storage_before 100 trickle_schedule 0) (trickle ! 0)
        - (commitment_S4_min (trickle ! 0) + commitment_S5_min (trickle ! 0))
        < demand_D1 (trickle ! 0) + demand_D2 (trickle ! 0)
   \<and> demand_D1 (trickle ! 0) \<noteq> 0 \<and> demand_D2 (trickle ! 0) \<noteq> 0
   \<and> demand_D1 (trickle ! 0) / demand_D2 (trickle ! 0) = 1
   \<and> release_D1 (trickle_schedule ! 0) = 0 \<and> release_D2 (trickle_schedule ! 0) = 0
   \<and> release_D1 (trickle_schedule ! 0) / release_D2 (trickle_schedule ! 0)
        \<noteq> demand_D1 (trickle ! 0) / demand_D2 (trickle ! 0)"
proof -
  have av: "available 100 (storage_before 100 trickle_schedule 0) (trickle ! 0)
              = 75 + 1 / 10000000"
    by (simp add: trickle_def storage_before_def engine_defs)
  have r: "commitment_S4_min (trickle ! 0) = 40" "commitment_S5_min (trickle ! 0) = 35"
    "demand_D1 (trickle ! 0) = 2 / 10000000" "demand_D2 (trickle ! 0) = 2 / 10000000"
    by (simp_all add: trickle_def sample_hour_def)
  have s: "release_D1 (trickle_schedule ! 0) = 0" "release_D2 (trickle_schedule ! 0) = 0"
    "release_S4_river (trickle_schedule ! 0) = 40"
    "release_S5_downstream (trickle_schedule ! 0) = 35"
    by (simp_all add: trickle_schedule_def)
  show ?thesis
    using trickle_run unit_multipliers_apply [of trickle] by (simp add: av r s)
qed

section \<open>Claims about errors, the summary and the generator\<close>

text \<open>
  Claim C8 (no error), as amended. For every non-empty time series, every
  \<open>storage_start\<close>, \<open>storage_min\<close> and \<open>storage_max\<close> (inverted or negative
  ones too), every \<open>max_release_per_hour \<ge> 0\<close> and every multiplier dict with
  the four keys such that in no hour the adjusted commitments sum to exactly
  \<open>-1e-6\<close>, the function returns a schedule with one row per input hour: no
  division has a zero divisor and nothing else raises.
\<close>

theorem schedule_returns:
  assumes "apply_multipliers m inputs = Inr df"
      and "inputs \<noteq> []"
      and "0 \<le> cap"
      and "list_all shortage_guarded df"
  shows "\<exists>sched. pseudo_black_box_schedule inputs ss smin smax cap m = Inr sched
                  \<and> length sched = length inputs"
proof -
  have len_df: "length df = length inputs"
    using assms(1) by (auto simp: apply_multipliers_def split: option.splits)
  from run_hours_ok [OF assms(3,4)]
  obtain sched where run: "run_hours smin smax cap ss df = Inr sched" by blast
  from run_hours_length [OF run] len_df have len: "length sched = length inputs" by simp
  with assms(2) have "sched \<noteq> []" by auto
  with assms(1) run have "pseudo_black_box_schedule inputs ss smin smax cap m = Inr sched"
    by (simp add: pseudo_black_box_schedule_def)
  with len show ?thesis by blast
qed

text \<open>
  The theorem at the dry spell, with an inverted pair of storage bounds and a
  negative starting storage.
\<close>

theorem schedule_returns_witness:
  "apply_multipliers unit_multipliers dry_spell = Inr dry_spell
   \<and> dry_spell \<noteq> []
   \<and> (0::real) \<le> 1000
   \<and> list_all shortage_guarded dry_spell
   \<and> \<not> isl (pseudo_black_box_schedule dry_spell (- 5) 300 200 1000 unit_multipliers)
   \<and> length (projr (pseudo_black_box_schedule dry_spell (- 5) 300 200 1000 unit_multipliers))
        = length dry_spell"
proof -
  have ne: "dry_spell \<noteq> []" by (simp add: dry_spell_def)
  have cap: "(0::real) \<le> 1000" by simp
  have g: "list_all shortage_guarded dry_spell"
    by (simp add: dry_spell_def sample_hour_def shortage_guarded_def)
  from schedule_returns [OF unit_multipliers_apply ne cap g, of "- 5" 300 200]
  obtain sched where
    "pseudo_black_box_schedule dry_spell (- 5) 300 200 1000 unit_multipliers = Inr sched"
    "length sched = length dry_spell"
    by blast
  then have "\<not> isl (pseudo_black_box_schedule dry_spell (- 5) 300 200 1000 unit_multipliers)
   \<and> length (projr (pseudo_black_box_schedule dry_spell (- 5) 300 200 1000 unit_multipliers))
        = length dry_spell"
    by simp
  with unit_multipliers_apply [of dry_spell] ne cap g show ?thesis by blast
qed

text \<open>
  The claim as stated includes a negative \<open>max_release_per_hour\<close>. In the
  drought run nothing flows in and nothing is stored above the minimum, so the
  shortage branch releases nothing; the total 0 exceeds the cap \<open>-1\<close>, and line
  114 divides the cap by that total.
\<close>

theorem negative_cap_divides_by_zero:
  "pseudo_black_box_schedule drought 100 100 1000 (- 1) unit_multipliers
     = Inl ZeroDivisionError"
  by (simp add: engine_defs unit_multipliers_apply drought_def)

text \<open>
  Claim C9 (the summary). \<open>kpis\<close> is a function of the inputs and the schedule
  alone. Its demand percentage is 100 times the sum over all hours of
  \<open>release_D1 + release_D2\<close>, divided by the sum over all hours of
  \<open>demand_D1 + demand_D2\<close> plus \<open>1e-6\<close>; the commitment percentage is the same
  over the commitment releases and the commitment columns; the total spillage
  is the sum of the hourly spillage; the violations are the number of hours
  whose flag is set.
\<close>

theorem kpis_formulas:
  "kpis inputs schedule =
     \<lparr>Demand_met_pct =
        np_truediv (100 * (\<Sum>r\<leftarrow>schedule. release_D1 r + release_D2 r))
          ((\<Sum>r\<leftarrow>inputs. demand_D1 r + demand_D2 r) + 1 / 1000000),
      Commitments_met_pct =
        np_truediv (100 * (\<Sum>r\<leftarrow>schedule. release_S4_river r + release_S5_downstream r))
          ((\<Sum>r\<leftarrow>inputs. commitment_S4_min r + commitment_S5_min r) + 1 / 1000000),
      Total_spillage = (\<Sum>r\<leftarrow>schedule. spillage r),
      Storage_min_violations = int (length (filter violation_storage_min schedule))\<rparr>"
proof -
  have "(\<Sum>r\<leftarrow>schedule. if violation_storage_min r then 1 else 0)
          = int (length (filter violation_storage_min schedule))"
    by (induction schedule) simp_all
  then show ?thesis by (simp add: kpis_def Let_def sum_list_addf)
qed

text \<open>
  The quotient of the percentages is the quotient of real numbers whenever its
  divisor is not zero, as it is for non-negative demands and commitments.
\<close>

lemma np_truediv_finite: "b \<noteq> 0 \<Longrightarrow> np_truediv a b = Finite (a / b)"
  by (simp add: np_truediv_def)

text \<open>The summary of the flood run: one violation, 205 units spilled.\<close>

theorem kpis_formulas_witness:
  "kpis flood flood_schedule =
     \<lparr>Demand_met_pct = Finite (100 * (600 / 7) / (100 + 1 / 1000000)),
      Commitments_met_pct = Finite (100 * (975 / 7) / (150 + 1 / 1000000)),
      Total_spillage = 205,
      Storage_min_violations = 1\<rparr>"
  using kpis_formulas [of flood flood_schedule]
  by (simp add: flood_def flood_schedule_def sample_hour_def np_truediv_def)

text \<open>
  Claim C10 (the generator), as amended. For every horizon of at least one hour,
  every seed that is not negative, every noise source and every starting hour,
  \<open>generate_inputs\<close> returns exactly \<open>horizon\<close> rows, one per hour from the
  start; every value of every column is non-negative; and each of the two
  commitment columns has the same value in every row.
\<close>

theorem generate_inputs_rows:
  assumes "1 \<le> horizon" and "0 \<le> seed"
  shows "\<exists>df. generate_inputs normal start horizon seed = Inr df
           \<and> length df = nat horizon
           \<and> (\<forall>i < length df. datetime (df ! i) = start + int i)
           \<and> list_all nonneg_row df
           \<and> (\<forall>r \<in> set df. \<forall>r' \<in> set df.
                 commitment_S4_min r = commitment_S4_min r'
                 \<and> commitment_S5_min r = commitment_S5_min r')"
proof -
  have h: "0 \<le> horizon" using assms(1) by simp
  obtain idx s1 where s1: "make_timeseries normal start horizon seed = Inr (idx, s1)"
    "length idx = nat horizon" "\<forall>i < nat horizon. idx ! i = start + int i"
    "\<forall>i < nat horizon. 0 \<le> s1 ! i"
    using make_timeseries_ok [OF assms(2) h] by blast
  obtain i1 r1 where r1: "make_timeseries normal start horizon (seed + 1) = Inr (i1, r1)"
    "\<forall>i < nat horizon. 0 \<le> r1 ! i"
    using make_timeseries_ok [OF _ h, of "seed + 1"] assms(2) by force
  obtain i2 r2 where r2: "make_timeseries normal start horizon (seed + 2) = Inr (i2, r2)"
    "\<forall>i < nat horizon. 0 \<le> r2 ! i"
    using make_timeseries_ok [OF _ h, of "seed + 2"] assms(2) by force
  obtain i3 d1 where d1: "make_timeseries normal start horizon (seed + 3) = Inr (i3, d1)"
    "\<forall>i < nat horizon. 0 \<le> d1 ! i"
    using make_timeseries_ok [OF _ h, of "seed + 3"] assms(2) by force
  obtain i4 d2 where d2: "make_timeseries normal start horizon (seed + 4) = Inr (i4, d2)"
    "\<forall>i < nat horizon. 0 \<le> d2 ! i"
    using make_timeseries_ok [OF _ h, of "seed + 4"] assms(2) by force
  let ?row = "\<lambda>i. \<lparr>datetime = idx ! i, river_inflow_S1 = s1 ! i,
      upstream_release_R1 = r1 ! i, upstream_release_R2 = r2 ! i,
      demand_D1 = d1 ! i * (55 / 100), demand_D2 = d2 ! i * (45 / 100),
      commitment_S4_min = replicate (nat horizon) (40::real) ! i,
      commitment_S5_min = replicate (nat horizon) (35::real) ! i\<rparr>"
  let ?df = "map ?row [0..<nat horizon]"
  have gen: "generate_inputs normal start horizon seed = Inr ?df"
    by (simp add: generate_inputs_def s1 r1 d1 r2 d2 Let_def)
  have rows: "\<exists>i < nat horizon. r = ?row i" if "r \<in> set ?df" for r
    using that by auto
  have nn: "nonneg_row r" if "r \<in> set ?df" for r
    using rows [OF that] s1(4) r1(2) r2(2) d1(2) d2(2) by (auto simp: nonneg_row_def)
  have const: "commitment_S4_min r = 40 \<and> commitment_S5_min r = 35" if "r \<in> set ?df" for r
    using rows [OF that] by auto
  have "length ?df = nat horizon" by simp
  moreover have "\<forall>i < length ?df. datetime (?df ! i) = start + int i"
    using s1(3) by simp
  moreover have "list_all nonneg_row ?df" using nn by (simp only: list_all_iff) blast
  moreover have "\<forall>r \<in> set ?df. \<forall>r' \<in> set ?df.
      commitment_S4_min r = commitment_S4_min r' \<and> commitment_S5_min r = commitment_S5_min r'"
  proof (intro ballI)
    fix r r' assume "r \<in> set ?df" "r' \<in> set ?df"
    from const [OF this(1)] const [OF this(2)]
    show "commitment_S4_min r = commitment_S4_min r'
            \<and> commitment_S5_min r = commitment_S5_min r'" by simp
  qed
  ultimately show ?thesis using gen by blast
qed

text \<open>
  The theorem at a horizon of three hours and the default seed 7, without
  noise: the three rows of \<open>calm_inputs\<close>.
\<close>

theorem generate_inputs_rows_witness:
  "(1::int) \<le> 3 \<and> (0::int) \<le> 7
   \<and> generate_inputs no_noise 0 3 7 = Inr calm_inputs
   \<and> length calm_inputs = 3
   \<and> datetime (calm_inputs ! 2) = 2
   \<and> list_all nonneg_row calm_inputs
   \<and> commitment_S4_min (calm_inputs ! 0) = commitment_S4_min (calm_inputs ! 2)
   \<and> commitment_S5_min (calm_inputs ! 0) = commitment_S5_min (calm_inputs ! 2)"
proof -
  have h: "(1::int) \<le> 3" and s: "(0::int) \<le> 7" by simp_all
  from generate_inputs_rows [OF h s, of no_noise 0]
  obtain df where df: "generate_inputs no_noise 0 3 7 = Inr df" and
    len: "length df = nat 3" and
    hours: "\<forall>i < length df. datetime (df ! i) = 0 + int i" and
    nn: "list_all nonneg_row df" and
    const: "\<forall>r \<in> set df. \<forall>r' \<in> set df.
              commitment_S4_min r = commitment_S4_min r'
              \<and> commitment_S5_min r = commitment_S5_min r'"
    by blast
  from df calm_run have eq: "df = calm_inputs" by simp
  have l: "length calm_inputs = 3" using len eq by simp
  have d: "datetime (calm_inputs ! 2) = 2" using hours eq l by simp
  have "calm_inputs ! 0 \<in> set calm_inputs" "calm_inputs ! 2 \<in> set calm_inputs"
    using l by simp_all
  with const eq have c:
    "commitment_S4_min (calm_inputs ! 0) = commitment_S4_min (calm_inputs ! 2)"
    "commitment_S5_min (calm_inputs ! 0) = commitment_S5_min (calm_inputs ! 2)"
    by blast+
  from h s calm_run l d nn eq c show ?thesis by blast
qed

text \<open>
  The claim as stated is for every seed. A negative seed is refused by the
  random generator of line 12, so the call raises instead of returning rows.
\<close>

theorem negative_seed_raises:
  "generate_inputs no_noise 0 1 (- 1) = Inl ValueError"
  by (simp add: generate_inputs_def make_timeseries_def)

end
